theory Spec2Isabelle
  imports Complex_Main "HOL-Library.Log_Nat"
begin

section \<open>Python values used by \<open>sistema_inventario.py\<close>\<close>

subsection \<open>Floating-point numbers (IEEE 754 binary64)\<close>

text \<open>
  A Python \<open>float\<close> is a binary64 number. A finite non-zero value, and positive zero, is
  represented by its exact rational value; negative zero, the infinities and NaN are
  separate values. Arithmetic computes the exact rational result and rounds it to the
  nearest binary64 number, ties to even (\<open>round64\<close>).
\<close>

datatype pyfloat = Finite rat | NegZero | PosInf | NegInf | NaN

definition pow2 :: "int \<Rightarrow> rat" where
  "pow2 k = (if 0 \<le> k then 2 ^ nat k else 1 / 2 ^ nat (- k))"

text \<open>\<open>ilog2 a\<close> is the integer part of the binary logarithm of a positive rational.\<close>

definition ilog2 :: "rat \<Rightarrow> int" where
  "ilog2 a = (if 1 \<le> a then bitlen \<lfloor>a\<rfloor> - 1 else - bitlen (\<lceil>1 / a\<rceil> - 1))"

definition round_half_even :: "rat \<Rightarrow> int" where
  "round_half_even x =
     (let n = \<lfloor>x\<rfloor>; r = x - of_int n
      in if r < 1 / 2 then n else if 1 / 2 < r then n + 1 else if even n then n else n + 1)"

text \<open>
  Rounding of an exact result: the exponent is that of the value, but not below the
  exponent \<open>-1022\<close> of the subnormal numbers; the significand has 53 bits; a result of
  magnitude \<open>2^1024\<close> or more is an infinity; a result that underflows is a signed zero.
\<close>

definition round64 :: "rat \<Rightarrow> pyfloat" where
  "round64 x =
     (if x = 0 then Finite 0
      else
        let a = \<bar>x\<bar>;
            e = max (ilog2 a) (- 1022);
            q = pow2 (e - 52);
            r = of_int (round_half_even (a / q)) * q
        in if pow2 1024 \<le> r then (if x < 0 then NegInf else PosInf)
           else if r = 0 then (if x < 0 then NegZero else Finite 0)
           else Finite (if x < 0 then - r else r))"

definition is_inf :: "pyfloat \<Rightarrow> bool" where
  "is_inf x = (x = PosInf \<or> x = NegInf)"

definition is_zero :: "pyfloat \<Rightarrow> bool" where
  "is_zero x = (x = Finite 0 \<or> x = NegZero)"

text \<open>The sign bit, and the rational value of a finite number.\<close>

fun fsign :: "pyfloat \<Rightarrow> bool" where
  "fsign (Finite r) = (r < 0)"
| "fsign NegZero = True"
| "fsign PosInf = False"
| "fsign NegInf = True"
| "fsign NaN = False"

fun fval :: "pyfloat \<Rightarrow> rat" where
  "fval (Finite r) = r"
| "fval _ = 0"

definition fzero :: "bool \<Rightarrow> pyfloat" where
  "fzero neg = (if neg then NegZero else Finite 0)"

definition finf :: "bool \<Rightarrow> pyfloat" where
  "finf neg = (if neg then NegInf else PosInf)"

text \<open>\<open>x * y\<close> and \<open>x + y\<close> on floats.\<close>

definition fmul :: "pyfloat \<Rightarrow> pyfloat \<Rightarrow> pyfloat" where
  "fmul x y =
     (if x = NaN \<or> y = NaN then NaN
      else if is_inf x \<or> is_inf y
        then (if is_zero x \<or> is_zero y then NaN else finf (fsign x \<noteq> fsign y))
      else if is_zero x \<or> is_zero y then fzero (fsign x \<noteq> fsign y)
      else round64 (fval x * fval y))"


text \<open>The comparisons \<open>x < 0\<close> and \<open>x >= 0\<close> of a float with the integer zero.\<close>

fun float_lt0 :: "pyfloat \<Rightarrow> bool" where
  "float_lt0 (Finite r) = (r < 0)"
| "float_lt0 NegInf = True"
| "float_lt0 _ = False"

fun float_ge0 :: "pyfloat \<Rightarrow> bool" where
  "float_ge0 (Finite r) = (0 \<le> r)"
| "float_ge0 NegZero = True"
| "float_ge0 PosInf = True"
| "float_ge0 _ = False"

subsection \<open>Exceptions\<close>

text \<open>
  The messages of the exceptions the module raises itself, in the order of the source:
  empty name, non-numeric price, negative price, non-integer quantity, negative
  quantity (\<open>Producto\<close>); argument that is no \<open>Producto\<close>, name already present
  (\<open>agregar_producto\<close>); empty search name (\<open>buscar_producto\<close>).
\<close>

datatype mensaje =
    NombreVacio | PrecioNoNumerico | PrecioNegativo | CantidadNoEntera | CantidadNegativa
  | SoloProductos | NombreRepetido | BusquedaVacia

text \<open>
  \<open>OverflowError\<close> is raised by the conversion of a too large \<open>int\<close> to \<open>float\<close>,
  \<open>AttributeError\<close> by \<open>nombre.strip()\<close> on a value that is no string. In the terms
  of the specification, \<open>TypeError\<close> is the kind TypeMismatch, \<open>ValueError\<close> with the
  message \<open>NombreRepetido\<close> is the kind DuplicateKey, and \<open>ValueError\<close> with any other
  message is the kind InvalidArgument.
\<close>

datatype exc = ValueError mensaje | TypeError mensaje | OverflowError | AttributeError

text \<open>\<open>float(n)\<close> for an integer: the nearest float, or \<open>OverflowError\<close>.\<close>

definition float_of_int :: "int \<Rightarrow> exc + pyfloat" where
  "float_of_int n =
     (let f = round64 (of_int n) in if is_inf f then Inl OverflowError else Inr f)"

text \<open>
  The least positive integer that rounds to an infinity, half way between the largest
  float and \<open>2^1024\<close>: \<open>float(n)\<close> raises \<open>OverflowError\<close> exactly for the integers of
  this magnitude or more (\<open>float_of_int_overflow_iff\<close>).
\<close>

definition limite_float :: int where
  "limite_float = 2 ^ 1024 - 2 ^ 970"

subsection \<open>Strings\<close>

text \<open>
  Strings are sequences of code points below 256. \<open>isspace\<close> and \<open>lower_char\<close> are
  Python's \<open>str.isspace\<close> and \<open>str.lower\<close> on these code points.
\<close>

definition isspace :: "char \<Rightarrow> bool" where
  "isspace c = (of_char c \<in> {9, 10, 11, 12, 13, 28, 29, 30, 31, 32, 133, 160 :: nat})"

definition strip :: "string \<Rightarrow> string" where
  "strip s = rev (dropWhile isspace (rev (dropWhile isspace s)))"

definition lower_char :: "char \<Rightarrow> char" where
  "lower_char c =
     (let n = of_char c :: nat
      in if (65 \<le> n \<and> n \<le> 90) \<or> (192 \<le> n \<and> n \<le> 222 \<and> n \<noteq> 215)
         then char_of (n + 32) else c)"

definition lower :: "string \<Rightarrow> string" where
  "lower s = map lower_char s"

subsection \<open>Values\<close>

text \<open>
  Instances of \<open>int\<close>; \<open>bool\<close> is a subclass of \<open>int\<close>, so \<open>isinstance(True, int)\<close>
  holds and \<open>True\<close> counts as 1.
\<close>

datatype pyint = IntObj int | BoolObj bool

fun valor :: "pyint \<Rightarrow> int" where
  "valor (IntObj n) = n"
| "valor (BoolObj b) = (if b then 1 else 0)"

text \<open>
  The values a caller can pass: \<open>None\<close>, integers and booleans, floats, strings,
  references to \<open>Producto\<close> instances (addresses in the object store), and lists as an
  example of any other object.
\<close>

datatype pyval =
    PNone | PEntero pyint | PFloat pyfloat | PStr string | PRef nat | PList "pyval list"

text \<open>\<open>isinstance(v, (int, float))\<close> and \<open>isinstance(v, int)\<close>, with the instance found.\<close>

type_synonym numero = "pyint + pyfloat"

fun numero_de :: "pyval \<Rightarrow> numero option" where
  "numero_de (PEntero i) = Some (Inl i)"
| "numero_de (PFloat f) = Some (Inr f)"
| "numero_de _ = None"

fun entero_de :: "pyval \<Rightarrow> pyint option" where
  "entero_de (PEntero i) = Some i"
| "entero_de _ = None"

text \<open>\<open>float(x)\<close> for an instance of \<open>int\<close> or \<open>float\<close>.\<close>

fun py_float :: "numero \<Rightarrow> exc + pyfloat" where
  "py_float (Inl i) = float_of_int (valor i)"
| "py_float (Inr f) = Inr f"

text \<open>\<open>x * c\<close> for a float and an integer: the integer is converted first.\<close>

definition float_mul_int :: "pyfloat \<Rightarrow> pyint \<Rightarrow> exc + pyfloat" where
  "float_mul_int x c =
     (case float_of_int (valor c) of Inl e \<Rightarrow> Inl e | Inr y \<Rightarrow> Inr (fmul x y))"


subsection \<open>Formatting\<close>






section \<open>The program state\<close>

text \<open>
  The attributes of a \<open>Producto\<close> instance. \<open>precio\<close> always holds a float (the
  constructor and \<open>actualizar_precio\<close> store \<open>float(precio)\<close>); \<open>cantidad\<close> holds the
  integer object it was given.
\<close>

record producto =
  nombre :: string
  precio :: pyfloat
  cantidad :: pyint

text \<open>
  Instances are mutable and shared by reference: \<open>objetos\<close> is the store of all
  \<open>Producto\<close> instances created so far (a reference is an index into it),
  \<open>productos\<close> is the attribute \<open>Inventario.productos\<close>, a list of references in
  insertion order, and \<open>salida\<close> is the text written to standard output.
\<close>

record estado =
  objetos :: "producto list"
  productos :: "nat list"
  salida :: string

text \<open>\<open>Inventario()\<close>: an empty list of products.\<close>

definition Inventario :: estado where
  "Inventario = \<lparr>objetos = [], productos = [], salida = []\<rparr>"


section \<open>Class \<open>Producto\<close>\<close>

text \<open>
  \<open>Producto.__init__\<close>: the checks in the order of the source, and the attributes it
  assigns when all of them pass.
\<close>

definition init_producto :: "pyval \<Rightarrow> pyval \<Rightarrow> pyval \<Rightarrow> exc + producto" where
  "init_producto nom pre cant =
     (let nombre_limpio = (case nom of PStr t \<Rightarrow> strip t | _ \<Rightarrow> [])
      in if nombre_limpio = [] then Inl (ValueError NombreVacio)
         else
           (case numero_de pre of
              None \<Rightarrow> Inl (TypeError PrecioNoNumerico)
            | Some n \<Rightarrow>
                (case py_float n of
                   Inl e \<Rightarrow> Inl e
                 | Inr precio_float \<Rightarrow>
                     if float_lt0 precio_float then Inl (ValueError PrecioNegativo)
                     else
                       (case entero_de cant of
                          None \<Rightarrow> Inl (TypeError CantidadNoEntera)
                        | Some c \<Rightarrow>
                            if valor c < 0 then Inl (ValueError CantidadNegativa)
                            else Inr \<lparr>nombre = nombre_limpio, precio = precio_float,
                                      cantidad = c\<rparr>))))"

text \<open>
  The call \<open>Producto(nombre, precio, cantidad)\<close>: a new instance in the store and its
  reference, or the exception of \<open>__init__\<close> and no new instance.
\<close>

definition Producto :: "estado \<Rightarrow> pyval \<Rightarrow> pyval \<Rightarrow> pyval \<Rightarrow> (exc + nat) \<times> estado" where
  "Producto s nom pre cant =
     (case init_producto nom pre cant of
        Inl e \<Rightarrow> (Inl e, s)
      | Inr obj \<Rightarrow> (Inr (length (objetos s)), s\<lparr>objetos := objetos s @ [obj]\<rparr>))"

definition actualizar_precio :: "estado \<Rightarrow> nat \<Rightarrow> pyval \<Rightarrow> (exc + pyval) \<times> estado" where
  "actualizar_precio s self nuevo_precio =
     (case numero_de nuevo_precio of
        None \<Rightarrow> (Inl (TypeError PrecioNoNumerico), s)
      | Some n \<Rightarrow>
          (case py_float n of
             Inl e \<Rightarrow> (Inl e, s)
           | Inr nuevo_precio_float \<Rightarrow>
               if float_lt0 nuevo_precio_float then (Inl (ValueError PrecioNegativo), s)
               else (Inr PNone,
                     s\<lparr>objetos := (objetos s)
                          [self := (objetos s ! self)\<lparr>precio := nuevo_precio_float\<rparr>]\<rparr>)))"

definition actualizar_cantidad :: "estado \<Rightarrow> nat \<Rightarrow> pyval \<Rightarrow> (exc + pyval) \<times> estado" where
  "actualizar_cantidad s self nueva_cantidad =
     (case entero_de nueva_cantidad of
        None \<Rightarrow> (Inl (TypeError CantidadNoEntera), s)
      | Some c \<Rightarrow>
          if valor c < 0 then (Inl (ValueError CantidadNegativa), s)
          else (Inr PNone,
                s\<lparr>objetos := (objetos s)[self := (objetos s ! self)\<lparr>cantidad := c\<rparr>]\<rparr>))"

definition calcular_valor_total :: "estado \<Rightarrow> nat \<Rightarrow> (exc + pyfloat) \<times> estado" where
  "calcular_valor_total s self =
     (float_mul_int (precio (objetos s ! self)) (cantidad (objetos s ! self)), s)"


section \<open>Class \<open>Inventario\<close>\<close>

text \<open>
  \<open>isinstance(producto, Producto)\<close> holds for the references to instances in the store.
  The test \<open>any(p.nombre.lower() == producto.nombre.lower() for p in self.productos)\<close>
  is \<open>list_ex\<close> over the references.
\<close>

definition agregar_producto :: "estado \<Rightarrow> pyval \<Rightarrow> (exc + pyval) \<times> estado" where
  "agregar_producto s prd =
     (case prd of
        PRef r \<Rightarrow>
          if \<not> r < length (objetos s) then (Inl (TypeError SoloProductos), s)
          else if list_ex (\<lambda>p. lower (nombre (objetos s ! p)) = lower (nombre (objetos s ! r)))
                    (productos s)
            then (Inl (ValueError NombreRepetido), s)
          else (Inr PNone, s\<lparr>productos := productos s @ [r]\<rparr>)
      | _ \<Rightarrow> (Inl (TypeError SoloProductos), s))"

text \<open>The loop of \<open>buscar_producto\<close>: the first reference whose name matches, or \<open>None\<close>.\<close>

fun buscar_en :: "producto list \<Rightarrow> string \<Rightarrow> nat list \<Rightarrow> nat option" where
  "buscar_en objs nombre_limpio [] = None"
| "buscar_en objs nombre_limpio (r # rs) =
     (if lower (nombre (objs ! r)) = lower nombre_limpio then Some r
      else buscar_en objs nombre_limpio rs)"

definition buscar_producto :: "estado \<Rightarrow> pyval \<Rightarrow> (exc + nat option) \<times> estado" where
  "buscar_producto s nom =
     (case nom of
        PStr t \<Rightarrow>
          (let nombre_limpio = strip t
           in if nombre_limpio = [] then (Inl (ValueError BusquedaVacia), s)
              else (Inr (buscar_en (objetos s) nombre_limpio (productos s)), s))
      | _ \<Rightarrow> (Inl AttributeError, s))"





section \<open>Executions and invariants\<close>







section \<open>Example states\<close>

text \<open>
  An inventory holding \<open>Widget\<close>, with two more instances \<open>WIDGET\<close> and \<open>Gadget\<close>
  that are not in it; and an inventory holding \<open>Apple\<close> and \<open>Banana\<close>, added in this
  order.
\<close>

definition ejemplo_widget :: estado where
  "ejemplo_widget =
     \<lparr>objetos = [\<lparr>nombre = ''Widget'', precio = Finite 1, cantidad = IntObj 1\<rparr>,
                 \<lparr>nombre = ''WIDGET'', precio = Finite 2, cantidad = IntObj 5\<rparr>,
                 \<lparr>nombre = ''Gadget'', precio = Finite 3, cantidad = IntObj 0\<rparr>],
      productos = [0], salida = []\<rparr>"

definition ejemplo_frutas :: estado where
  "ejemplo_frutas =
     \<lparr>objetos = [\<lparr>nombre = ''Apple'', precio = Finite (1 / 2), cantidad = IntObj 3\<rparr>,
                 \<lparr>nombre = ''Banana'', precio = Finite (1 / 4), cantidad = IntObj 12\<rparr>],
      productos = [0, 1], salida = []\<rparr>"




section \<open>Properties of the floating-point model\<close>

lemma pow2_pos: "0 < pow2 k"
  by (simp add: pow2_def)

lemma pow2_powi: "pow2 k = 2 powi k"
  unfolding pow2_def power_int_def by (simp only: inverse_eq_divide power_one_over)

lemma pow2_add: "pow2 (i + j) = pow2 i * pow2 j"
  unfolding pow2_powi by (rule power_int_add) simp

lemma pow2_mono: "i \<le> j \<Longrightarrow> pow2 i \<le> pow2 j"
  unfolding pow2_powi by (rule power_int_increasing) simp_all

lemma ilog2_bounds:
  assumes "1 \<le> a"
  shows "0 \<le> ilog2 a" and "pow2 (ilog2 a) \<le> a" and "a < pow2 (ilog2 a + 1)"
proof -
  let ?m = "\<lfloor>a\<rfloor>"
  have m: "0 < ?m" using assms by simp
  from bitlen_bounds [OF m]
  have lo: "2 ^ nat (bitlen ?m - 1) \<le> ?m" and hi: "?m < 2 ^ nat (bitlen ?m)" by simp_all
  have b1: "1 \<le> bitlen ?m" using m by (simp add: bitlen_alt_def)
  have k: "ilog2 a = bitlen ?m - 1" using assms by (simp add: ilog2_def)
  show "0 \<le> ilog2 a" using b1 k by simp
  have "(of_int (2 ^ nat (bitlen ?m - 1)) :: rat) \<le> of_int ?m"
    using lo by (simp only: of_int_le_iff)
  also have "\<dots> \<le> a" by simp
  finally show "pow2 (ilog2 a) \<le> a" using b1 k by (simp add: pow2_def)
  have "?m + 1 \<le> 2 ^ nat (bitlen ?m)" using hi by simp
  then have "(of_int (?m + 1) :: rat) \<le> of_int (2 ^ nat (bitlen ?m))"
    by (simp only: of_int_le_iff)
  moreover have "a < of_int (?m + 1)" by linarith
  ultimately have "a < of_int (2 ^ nat (bitlen ?m))" by linarith
  then show "a < pow2 (ilog2 a + 1)" using b1 k by (simp add: pow2_def)
qed

lemma rhe_ge: "of_int k \<le> x \<Longrightarrow> k \<le> round_half_even x"
proof -
  assume "of_int k \<le> x"
  then have "k \<le> \<lfloor>x\<rfloor>" by (simp add: le_floor_iff)
  then show ?thesis by (simp add: round_half_even_def Let_def)
qed

lemma rhe_le: "x \<le> of_int k \<Longrightarrow> round_half_even x \<le> k"
proof -
  assume x: "x \<le> of_int k"
  show ?thesis
  proof (cases "x = of_int k")
    case True
    then show ?thesis by (simp add: round_half_even_def Let_def)
  next
    case False
    with x have "x < of_int k" by simp
    then have "\<lfloor>x\<rfloor> < k" by (simp add: floor_less_iff)
    then show ?thesis by (simp add: round_half_even_def Let_def)
  qed
qed

lemma rhe_even_ge_iff:
  assumes "even k"
  shows "k \<le> round_half_even x \<longleftrightarrow> of_int k - 1 / 2 \<le> x"
proof
  assume "of_int k - 1 / 2 \<le> x"
  show "k \<le> round_half_even x"
  proof (cases "of_int k \<le> x")
    case True
    then show ?thesis by (rule rhe_ge)
  next
    case False
    then have "\<lfloor>x\<rfloor> < k" by (simp add: floor_less_iff)
    moreover have "k - 1 \<le> \<lfloor>x\<rfloor>" using \<open>of_int k - 1 / 2 \<le> x\<close> by (simp add: le_floor_iff)
    ultimately have f: "\<lfloor>x\<rfloor> = k - 1" by simp
    then have "odd \<lfloor>x\<rfloor>" using assms by simp
    moreover have "1 / 2 \<le> x - of_int \<lfloor>x\<rfloor>" using f \<open>of_int k - 1 / 2 \<le> x\<close> by simp
    ultimately show ?thesis using f by (auto simp add: round_half_even_def Let_def)
  qed
next
  assume r: "k \<le> round_half_even x"
  show "of_int k - 1 / 2 \<le> x"
  proof (rule ccontr)
    assume "\<not> of_int k - 1 / 2 \<le> x"
    then have lt: "x < of_int k - 1 / 2" by simp
    then have "x < of_int k" by simp
    then have fl: "\<lfloor>x\<rfloor> \<le> k - 1" by (simp add: floor_less_iff)
    show False
    proof (cases "\<lfloor>x\<rfloor> = k - 1")
      case True
      then have "x - of_int \<lfloor>x\<rfloor> < 1 / 2" using lt by simp
      then have "round_half_even x = k - 1" using True by (simp add: round_half_even_def Let_def)
      with r show False by simp
    next
      case False
      with fl have "\<lfloor>x\<rfloor> \<le> k - 2" by simp
      then have "round_half_even x \<le> k - 1" by (simp add: round_half_even_def Let_def)
      with r show False by simp
    qed
  qed
qed


lemma round64_ge1:
  assumes x: "1 \<le> \<bar>x\<bar>"
    and q: "q = pow2 (ilog2 \<bar>x\<bar> - 52)"
    and r: "r = of_int (round_half_even (\<bar>x\<bar> / q)) * q"
  shows "round64 x =
           (if pow2 1024 \<le> r then (if x < 0 then NegInf else PosInf)
            else Finite (if x < 0 then - r else r))"
    and "pow2 (ilog2 \<bar>x\<bar>) \<le> r" and "r \<le> pow2 (ilog2 \<bar>x\<bar> + 1)"
proof -
  let ?e = "ilog2 \<bar>x\<bar>"
  note b = ilog2_bounds [OF x]
  have qpos: "0 < q" by (simp add: q pow2_pos)
  have p52: "pow2 52 = 2 ^ 52" and p53: "pow2 53 = 2 ^ 53" by (simp_all add: pow2_def)
  have "pow2 ?e = pow2 (?e - 52) * pow2 52"
    using pow2_add [of "?e - 52" 52] by simp
  then have e52: "pow2 ?e = q * 2 ^ 52" by (simp only: q p52)
  have "pow2 (?e + 1) = pow2 (?e - 52) * pow2 53"
    using pow2_add [of "?e - 52" 53] by (simp add: add.commute)
  then have e53: "pow2 (?e + 1) = q * 2 ^ 53" by (simp only: q p53)
  have "q * 2 ^ 52 \<le> \<bar>x\<bar>" using b(2) e52 by simp
  then have "of_int (2 ^ 52) \<le> \<bar>x\<bar> / q"
    using qpos by (simp add: pos_le_divide_eq mult.commute)
  then have m_lo: "2 ^ 52 \<le> round_half_even (\<bar>x\<bar> / q)" by (rule rhe_ge)
  have "\<bar>x\<bar> \<le> q * 2 ^ 53" using b(3) e53 by simp
  then have "\<bar>x\<bar> / q \<le> of_int (2 ^ 53)"
    using qpos by (simp add: pos_divide_le_eq mult.commute)
  then have m_hi: "round_half_even (\<bar>x\<bar> / q) \<le> 2 ^ 53" by (rule rhe_le)
  have "(of_int (2 ^ 52) :: rat) \<le> of_int (round_half_even (\<bar>x\<bar> / q))"
    using m_lo by (simp only: of_int_le_iff)
  then have "of_int (2 ^ 52) * q \<le> r"
    unfolding r using qpos by (simp only: mult_le_cancel_right_pos)
  then show lo: "pow2 ?e \<le> r" using e52 by (simp add: mult.commute)
  have "(of_int (round_half_even (\<bar>x\<bar> / q)) :: rat) \<le> of_int (2 ^ 53)"
    using m_hi by (simp only: of_int_le_iff)
  then have "r \<le> of_int (2 ^ 53) * q"
    unfolding r using qpos by (simp only: mult_le_cancel_right_pos)
  then show "r \<le> pow2 (?e + 1)" using e53 by (simp add: mult.commute)
  have rpos: "0 < r" using lo pow2_pos [of ?e] by linarith
  have x0: "x \<noteq> 0" using x by auto
  have mx: "max ?e (- 1022) = ?e" using b(1) by simp
  have "round64 x =
           (if pow2 1024 \<le> r then (if x < 0 then NegInf else PosInf)
            else if r = 0 then (if x < 0 then NegZero else Finite 0)
            else Finite (if x < 0 then - r else r))"
    by (simp only: round64_def Let_def mx q [symmetric] r [symmetric] x0 if_False)
  then show "round64 x =
           (if pow2 1024 \<le> r then (if x < 0 then NegInf else PosInf)
            else Finite (if x < 0 then - r else r))"
    using rpos by simp
qed

lemma float_of_int_0: "float_of_int 0 = Inr (Finite 0)"
  by (simp add: float_of_int_def round64_def is_inf_def)

lemma float_of_int_sign:
  assumes "float_of_int n = Inr f"
  shows "float_lt0 f = (n < 0)" and "float_ge0 f = (0 \<le> n)"
proof -
  have "float_lt0 f = (n < 0) \<and> float_ge0 f = (0 \<le> n)"
  proof (cases "n = 0")
    case True
    then show ?thesis using assms by (auto simp add: float_of_int_0)
  next
    case False
    then have x: "1 \<le> \<bar>of_int n :: rat\<bar>"
      by (metis abs_ge_zero of_int_abs of_int_1_le_iff zero_less_abs_iff int_one_le_iff_zero_less)
    define q where "q = pow2 (ilog2 \<bar>of_int n :: rat\<bar> - 52)"
    define r where "r = of_int (round_half_even (\<bar>of_int n :: rat\<bar> / q)) * q"
    note R = round64_ge1 [OF x q_def r_def]
    have rpos: "0 < r" using R(2) pow2_pos [of "ilog2 \<bar>of_int n :: rat\<bar>"] by linarith
    have "f = Finite (if (of_int n :: rat) < 0 then - r else r)"
      using assms R(1) by (auto simp add: float_of_int_def Let_def is_inf_def split: if_splits)
    then show ?thesis using rpos False by auto
  qed
  then show "float_lt0 f = (n < 0)" and "float_ge0 f = (0 \<le> n)" by simp_all
qed


lemma rhe_of_int: "round_half_even (of_int k) = k"
  by (simp add: round_half_even_def)

lemma pow2_double: "pow2 (k + 1) = 2 * pow2 k"
  using pow2_add [of k 1] by (simp add: pow2_def)

lemma round64_overflow_iff:
  assumes x: "1 \<le> \<bar>x\<bar>"
  shows "is_inf (round64 x) \<longleftrightarrow> pow2 1024 - pow2 970 \<le> \<bar>x\<bar>"
proof -
  let ?e = "ilog2 \<bar>x\<bar>"
  define q where "q = pow2 (?e - 52)"
  define m where "m = round_half_even (\<bar>x\<bar> / q)"
  define r where "r = of_int m * q"
  note b = ilog2_bounds [OF x]
  note R = round64_ge1 [OF x q_def r_def [unfolded m_def]]
  have inf: "is_inf (round64 x) \<longleftrightarrow> pow2 1024 \<le> r"
    by (simp add: R(1) is_inf_def)
  have p1024: "pow2 1024 = 2 * pow2 1023" using pow2_double [of 1023] by simp
  have p970: "pow2 970 \<le> pow2 1023" by (rule pow2_mono) simp
  consider "1024 \<le> ?e" | "?e \<le> 1022" | "?e = 1023" by linarith
  then have "pow2 1024 \<le> r \<longleftrightarrow> pow2 1024 - pow2 970 \<le> \<bar>x\<bar>"
  proof cases
    case 1
    then have "pow2 1024 \<le> pow2 ?e" by (rule pow2_mono)
    then show ?thesis using R(2) b(2) pow2_pos [of 970] by linarith
  next
    case 2
    then have "pow2 (?e + 1) \<le> pow2 1023" by (intro pow2_mono) simp
    then show ?thesis using R(3) b(3) p1024 p970 pow2_pos [of 1023] by linarith
  next
    case 3
    have qpos: "0 < q" by (simp add: q_def pow2_pos)
    have q971: "q = pow2 971" by (simp add: q_def 3)
    have p53: "pow2 53 = 2 ^ 53" by (simp add: pow2_def)
    have "pow2 1024 = pow2 971 * pow2 53" using pow2_add [of 971 53] by simp
    then have top: "pow2 1024 = of_int (2 ^ 53) * q" by (simp add: q971 p53)
    have half: "pow2 970 = q / 2" using pow2_double [of 970] by (simp add: q971)
    have "pow2 1024 \<le> r \<longleftrightarrow> (of_int (2 ^ 53) :: rat) \<le> of_int m"
      unfolding top r_def using qpos by (simp only: mult_le_cancel_right_pos)
    also have "\<dots> \<longleftrightarrow> 2 ^ 53 \<le> m" by (simp only: of_int_le_iff)
    also have "\<dots> \<longleftrightarrow> of_int (2 ^ 53) - 1 / 2 \<le> \<bar>x\<bar> / q"
      unfolding m_def by (rule rhe_even_ge_iff) simp
    also have "\<dots> \<longleftrightarrow> (of_int (2 ^ 53) - 1 / 2) * q \<le> \<bar>x\<bar>"
      using qpos by (simp only: pos_le_divide_eq)
    also have "(of_int (2 ^ 53) - 1 / 2) * q = pow2 1024 - pow2 970"
      unfolding top half by (simp add: algebra_simps)
    finally show ?thesis .
  qed
  with inf show ?thesis by simp
qed

lemma float_of_int_overflow_iff:
  "float_of_int n = Inl OverflowError \<longleftrightarrow> limite_float \<le> \<bar>n\<bar>"
proof -
  have bound: "pow2 1024 - pow2 970 = of_int limite_float"
    by (simp add: pow2_def limite_float_def)
  have iff: "pow2 1024 - pow2 970 \<le> \<bar>of_int n :: rat\<bar> \<longleftrightarrow> limite_float \<le> \<bar>n\<bar>"
    unfolding bound by (simp only: of_int_abs [symmetric] of_int_le_iff)
  show ?thesis
  proof (cases "n = 0")
    case True
    have "pow2 970 < pow2 1024"
      using pow2_double [of 1023] pow2_mono [of 970 1023] pow2_pos [of 1023] by simp
    then have "\<not> pow2 1024 - pow2 970 \<le> \<bar>of_int n :: rat\<bar>" using True by simp
    then show ?thesis using True iff by (simp add: float_of_int_0)
  next
    case False
    then have x: "1 \<le> \<bar>of_int n :: rat\<bar>"
      by (metis of_int_abs of_int_1_le_iff zero_less_abs_iff int_one_le_iff_zero_less)
    have "float_of_int n = Inl OverflowError \<longleftrightarrow> is_inf (round64 (of_int n))"
      by (simp add: float_of_int_def Let_def)
    then show ?thesis using round64_overflow_iff [OF x] iff by simp
  qed
qed

lemma float_of_int_exact:
  assumes "\<bar>n\<bar> < 2 ^ 53"
  shows "float_of_int n = Inr (Finite (of_int n))"
proof (cases "n = 0")
  case True
  then show ?thesis by (simp add: float_of_int_0)
next
  case False
  let ?x = "of_int n :: rat"
  let ?e = "ilog2 \<bar>?x\<bar>"
  from False have x: "1 \<le> \<bar>?x\<bar>"
    by (metis of_int_abs of_int_1_le_iff zero_less_abs_iff int_one_le_iff_zero_less)
  define q where "q = pow2 (?e - 52)"
  define r where "r = of_int (round_half_even (\<bar>?x\<bar> / q)) * q"
  note b = ilog2_bounds [OF x]
  note R = round64_ge1 [OF x q_def r_def]
  have "\<bar>?x\<bar> < of_int (2 ^ 53)" using assms by (simp only: of_int_abs [symmetric] of_int_less_iff)
  then have lt53: "\<bar>?x\<bar> < pow2 53" by (simp add: pow2_def)
  have e52: "?e \<le> 52"
  proof (rule ccontr)
    assume "\<not> ?e \<le> 52"
    then have "pow2 53 \<le> pow2 ?e" by (intro pow2_mono) simp
    with b(2) lt53 show False by linarith
  qed
  have qinv: "q * 2 ^ nat (52 - ?e) = 1"
    using pow2_add [of "?e - 52" "52 - ?e"] e52 by (simp add: q_def pow2_def)
  have qpos: "0 < q" by (simp add: q_def pow2_pos)
  have "\<bar>?x\<bar> / q = \<bar>?x\<bar> * 2 ^ nat (52 - ?e)"
    using qinv qpos by (simp add: field_simps)
  also have "\<dots> = of_int (\<bar>n\<bar> * 2 ^ nat (52 - ?e))" by simp
  finally have "round_half_even (\<bar>?x\<bar> / q) = \<bar>n\<bar> * 2 ^ nat (52 - ?e)"
    by (simp only: rhe_of_int)
  then have "r = \<bar>?x\<bar> * (2 ^ nat (52 - ?e) * q)" by (simp add: r_def)
  then have r: "r = \<bar>?x\<bar>" using qinv by (simp add: mult.commute)
  have "pow2 53 \<le> pow2 1024" by (rule pow2_mono) simp
  then have "\<not> pow2 1024 \<le> r" using r lt53 by linarith
  then have "round64 ?x = Finite ?x" using R(1) r by auto
  then show ?thesis by (simp add: float_of_int_def is_inf_def)
qed

section \<open>Properties of strings\<close>




section \<open>Construction of products\<close>

text \<open>
  C10. A name that is not a string is treated as the empty name: whatever the price and
  the quantity are, the construction raises the \<open>ValueError\<close> of the empty name (not a
  \<open>TypeError\<close>), and no instance is created.
\<close>

theorem C10_nombre_no_str:
  "(\<forall>t. nom \<noteq> PStr t) \<longrightarrow> Producto s nom pre cant = (Inl (ValueError NombreVacio), s)"
  by (cases nom) (simp_all add: Producto_def init_producto_def)

theorem C10_nombre_no_str_witness:
  "(\<forall>t. PEntero (IntObj 7) \<noteq> PStr t) \<and> (\<forall>t. PNone \<noteq> PStr t) \<and>
   Producto Inventario (PEntero (IntObj 7)) (PFloat (Finite 1)) (PEntero (IntObj 1))
     = (Inl (ValueError NombreVacio), Inventario) \<and>
   Producto Inventario PNone (PStr ''x'') (PList [])
     = (Inl (ValueError NombreVacio), Inventario)"
  using C10_nombre_no_str [of "PEntero (IntObj 7)" Inventario "PFloat (Finite 1)" "PEntero (IntObj 1)"]
    C10_nombre_no_str [of PNone Inventario "PStr ''x''" "PList []"]
  by simp

lemma float_of_bool: "float_of_int (valor (BoolObj b)) = Inr (Finite (if b then 1 else 0))"
  using float_of_int_exact [of "valor (BoolObj b)"] by (cases b) simp_all

lemma py_float_error: "py_float n = Inl e \<Longrightarrow> e = OverflowError"
  by (cases n) (auto simp add: float_of_int_def Let_def split: if_splits)

text \<open>
  C9. Booleans are instances of \<open>int\<close>, so they pass the type checks of the price and of
  the quantity: \<open>actualizar_precio\<close> stores \<open>float(b)\<close> (1.0 or 0.0),
  \<open>actualizar_cantidad\<close> stores the boolean itself, the constructor never raises the
  \<open>TypeError\<close> of a non-numeric price for a boolean price nor that of a non-integer
  quantity for a boolean quantity, and with the other arguments valid it creates the
  instance with price \<open>float(b)\<close>, respectively with the boolean as quantity.
\<close>

theorem C9_booleanos:
  "actualizar_precio s self (PEntero (BoolObj b)) =
     (Inr PNone, s\<lparr>objetos := (objetos s)
        [self := (objetos s ! self)\<lparr>precio := Finite (if b then 1 else 0)\<rparr>]\<rparr>) \<and>
   actualizar_cantidad s self (PEntero (BoolObj b)) =
     (Inr PNone, s\<lparr>objetos := (objetos s)[self := (objetos s ! self)\<lparr>cantidad := BoolObj b\<rparr>]\<rparr>) \<and>
   fst (Producto s nom (PEntero (BoolObj b)) cant) \<noteq> Inl (TypeError PrecioNoNumerico) \<and>
   fst (Producto s nom pre (PEntero (BoolObj b))) \<noteq> Inl (TypeError CantidadNoEntera) \<and>
   (strip t \<noteq> [] \<and> 0 \<le> valor c \<longrightarrow>
      Producto s (PStr t) (PEntero (BoolObj b)) (PEntero c) =
        (Inr (length (objetos s)),
         s\<lparr>objetos := objetos s @
            [\<lparr>nombre = strip t, precio = Finite (if b then 1 else 0), cantidad = c\<rparr>]\<rparr>)) \<and>
   (strip t \<noteq> [] \<and> numero_de pre = Some n \<and> py_float n = Inr f \<and> \<not> float_lt0 f \<longrightarrow>
      Producto s (PStr t) pre (PEntero (BoolObj b)) =
        (Inr (length (objetos s)),
         s\<lparr>objetos := objetos s @ [\<lparr>nombre = strip t, precio = f, cantidad = BoolObj b\<rparr>]\<rparr>))"
proof (intro conjI impI)
  show "actualizar_precio s self (PEntero (BoolObj b)) =
     (Inr PNone, s\<lparr>objetos := (objetos s)
        [self := (objetos s ! self)\<lparr>precio := Finite (if b then 1 else 0)\<rparr>]\<rparr>)"
    by (simp add: actualizar_precio_def float_of_bool del: valor.simps)
  show "actualizar_cantidad s self (PEntero (BoolObj b)) =
     (Inr PNone, s\<lparr>objetos := (objetos s)[self := (objetos s ! self)\<lparr>cantidad := BoolObj b\<rparr>]\<rparr>)"
    by (simp add: actualizar_cantidad_def)
  show "fst (Producto s nom (PEntero (BoolObj b)) cant) \<noteq> Inl (TypeError PrecioNoNumerico)"
    by (simp add: Producto_def init_producto_def float_of_bool Let_def del: valor.simps
        split: option.splits sum.splits)
  show "fst (Producto s nom pre (PEntero (BoolObj b))) \<noteq> Inl (TypeError CantidadNoEntera)"
    by (auto simp add: Producto_def init_producto_def Let_def split: option.splits sum.splits
        dest: py_float_error)
next
  assume "strip t \<noteq> [] \<and> 0 \<le> valor c"
  then show "Producto s (PStr t) (PEntero (BoolObj b)) (PEntero c) =
        (Inr (length (objetos s)),
         s\<lparr>objetos := objetos s @
            [\<lparr>nombre = strip t, precio = Finite (if b then 1 else 0), cantidad = c\<rparr>]\<rparr>)"
    by (simp add: Producto_def init_producto_def float_of_bool del: valor.simps)
next
  assume "strip t \<noteq> [] \<and> numero_de pre = Some n \<and> py_float n = Inr f \<and> \<not> float_lt0 f"
  then show "Producto s (PStr t) pre (PEntero (BoolObj b)) =
        (Inr (length (objetos s)),
         s\<lparr>objetos := objetos s @ [\<lparr>nombre = strip t, precio = f, cantidad = BoolObj b\<rparr>]\<rparr>)"
    by (simp add: Producto_def init_producto_def)
qed

lemma strip_a: "strip ''a'' = ''a''"
  by (simp add: strip_def isspace_def)

theorem C9_booleanos_witness:
  "strip ''a'' \<noteq> [] \<and> 0 \<le> valor (BoolObj False) \<and>
   numero_de (PEntero (BoolObj True)) = Some (Inl (BoolObj True)) \<and>
   py_float (Inl (BoolObj True)) = Inr (Finite 1) \<and> \<not> float_lt0 (Finite 1) \<and>
   Producto Inventario (PStr ''a'') (PEntero (BoolObj True)) (PEntero (BoolObj False)) =
     (Inr 0, \<lparr>objetos = [\<lparr>nombre = ''a'', precio = Finite 1, cantidad = BoolObj False\<rparr>],
              productos = [], salida = []\<rparr>)"
  using C9_booleanos [where s = Inventario and b = True and t = "''a''" and c = "BoolObj False"]
    float_of_bool [of True]
  by (simp add: strip_a Inventario_def)

section \<open>The inventory\<close>

lemma lower_ejemplos:
  "lower ''WIDGET'' = ''widget''" "lower ''Widget'' = ''widget''" "lower ''Gadget'' = ''gadget''"
  "lower ''Apple'' = ''apple''" "lower ''Banana'' = ''banana''" "lower ''banana'' = ''banana''"
  "lower ''cherry'' = ''cherry''"
  by code_simp+

lemma strip_ejemplos:
  "strip '' banana '' = ''banana''" "strip ''  '' = []" "strip ''cherry'' = ''cherry''"
  by code_simp+

text \<open>
  C2. \<open>agregar_producto\<close> raises \<open>TypeError\<close> for an argument that is no \<open>Producto\<close>
  instance; it raises the \<open>ValueError\<close> of a repeated name, and leaves the state as it
  was, when a contained product has the same name after \<open>lower\<close>; otherwise it appends
  the reference at the end, the references before it keep their positions, and the
  instances are untouched.
\<close>

theorem C2_agregar_producto:
  "((\<forall>r. v = PRef r \<longrightarrow> \<not> r < length (objetos s)) \<longrightarrow>
      agregar_producto s v = (Inl (TypeError SoloProductos), s)) \<and>
   (r < length (objetos s) \<and>
    (\<exists>p \<in> set (productos s). lower (nombre (objetos s ! p)) = lower (nombre (objetos s ! r))) \<longrightarrow>
      agregar_producto s (PRef r) = (Inl (ValueError NombreRepetido), s)) \<and>
   (r < length (objetos s) \<and>
    (\<forall>p \<in> set (productos s). lower (nombre (objetos s ! p)) \<noteq> lower (nombre (objetos s ! r))) \<longrightarrow>
      agregar_producto s (PRef r) = (Inr PNone, s\<lparr>productos := productos s @ [r]\<rparr>) \<and>
      length (productos (snd (agregar_producto s (PRef r)))) = Suc (length (productos s)) \<and>
      productos (snd (agregar_producto s (PRef r))) ! length (productos s) = r \<and>
      (\<forall>i < length (productos s).
         productos (snd (agregar_producto s (PRef r))) ! i = productos s ! i) \<and>
      objetos (snd (agregar_producto s (PRef r))) = objetos s)"
proof (intro conjI impI)
  assume "\<forall>r. v = PRef r \<longrightarrow> \<not> r < length (objetos s)"
  then show "agregar_producto s v = (Inl (TypeError SoloProductos), s)"
    by (cases v) (simp_all add: agregar_producto_def)
next
  assume "r < length (objetos s) \<and>
    (\<exists>p \<in> set (productos s). lower (nombre (objetos s ! p)) = lower (nombre (objetos s ! r)))"
  then show "agregar_producto s (PRef r) = (Inl (ValueError NombreRepetido), s)"
    by (simp add: agregar_producto_def list_ex_iff)
next
  assume a: "r < length (objetos s) \<and>
    (\<forall>p \<in> set (productos s). lower (nombre (objetos s ! p)) \<noteq> lower (nombre (objetos s ! r)))"
  then show e: "agregar_producto s (PRef r) = (Inr PNone, s\<lparr>productos := productos s @ [r]\<rparr>)"
    by (simp add: agregar_producto_def list_ex_iff)
  show "length (productos (snd (agregar_producto s (PRef r)))) = Suc (length (productos s))"
    by (simp add: e)
  show "productos (snd (agregar_producto s (PRef r))) ! length (productos s) = r"
    by (simp add: e)
  show "\<forall>i < length (productos s).
         productos (snd (agregar_producto s (PRef r))) ! i = productos s ! i"
    by (simp add: e nth_append)
  show "objetos (snd (agregar_producto s (PRef r))) = objetos s"
    by (simp add: e)
qed

theorem C2_agregar_producto_witness:
  "agregar_producto ejemplo_widget (PStr ''Widget'')
     = (Inl (TypeError SoloProductos), ejemplo_widget) \<and>
   agregar_producto ejemplo_widget (PRef 1)
     = (Inl (ValueError NombreRepetido), ejemplo_widget) \<and>
   length (productos (snd (agregar_producto ejemplo_widget (PRef 1)))) = 1 \<and>
   agregar_producto ejemplo_widget (PRef 2)
     = (Inr PNone, ejemplo_widget\<lparr>productos := [0, 2]\<rparr>)"
  using
    C2_agregar_producto [where v = "PStr ''Widget''" and r = 1 and s = ejemplo_widget]
    C2_agregar_producto [where v = "PStr ''Widget''" and r = 2 and s = ejemplo_widget]
  by (simp add: lower_ejemplos ejemplo_widget_def)

text \<open>The loop of \<open>buscar_producto\<close> finds the first match.\<close>

lemma buscar_en_find:
  "buscar_en objs t rs = find (\<lambda>r. lower (nombre (objs ! r)) = lower t) rs"
  by (induction rs) simp_all

text \<open>
  C3. For a string whose trimmed text is empty \<open>buscar_producto\<close> raises the
  \<open>ValueError\<close> of the empty search name. Otherwise it raises nothing and returns
  \<open>None\<close> exactly when no contained product has the trimmed name after \<open>lower\<close>
  (so also for the empty inventory), and the reference at the first position of the
  inventory whose product has that name otherwise. The state is unchanged in both cases.
\<close>

theorem C3_buscar_producto:
  "(strip t = [] \<longrightarrow> buscar_producto s (PStr t) = (Inl (ValueError BusquedaVacia), s)) \<and>
   (strip t \<noteq> [] \<longrightarrow>
      (\<exists>res. buscar_producto s (PStr t) = (Inr res, s) \<and>
         (res = None \<longleftrightarrow>
            (\<forall>r \<in> set (productos s). lower (nombre (objetos s ! r)) \<noteq> lower (strip t))) \<and>
         (\<forall>r. res = Some r \<longleftrightarrow>
            (\<exists>i < length (productos s). productos s ! i = r \<and>
               lower (nombre (objetos s ! r)) = lower (strip t) \<and>
               (\<forall>j < i. lower (nombre (objetos s ! (productos s ! j))) \<noteq> lower (strip t))))))"
proof (intro conjI impI)
  assume "strip t = []"
  then show "buscar_producto s (PStr t) = (Inl (ValueError BusquedaVacia), s)"
    by (simp add: buscar_producto_def)
next
  assume ne: "strip t \<noteq> []"
  let ?P = "\<lambda>r. lower (nombre (objetos s ! r)) = lower (strip t)"
  let ?res = "find ?P (productos s)"
  have 1: "buscar_producto s (PStr t) = (Inr ?res, s)"
    using ne by (simp add: buscar_producto_def buscar_en_find)
  have 2: "?res = None \<longleftrightarrow> (\<forall>r \<in> set (productos s). \<not> ?P r)"
    by (auto simp add: find_None_iff)
  have 3: "?res = Some r \<longleftrightarrow>
      (\<exists>i < length (productos s). productos s ! i = r \<and> ?P r \<and>
         (\<forall>j < i. \<not> ?P (productos s ! j)))" for r
    by (auto simp add: find_Some_iff)
  show "\<exists>res. buscar_producto s (PStr t) = (Inr res, s) \<and>
         (res = None \<longleftrightarrow>
            (\<forall>r \<in> set (productos s). lower (nombre (objetos s ! r)) \<noteq> lower (strip t))) \<and>
         (\<forall>r. res = Some r \<longleftrightarrow>
            (\<exists>i < length (productos s). productos s ! i = r \<and>
               lower (nombre (objetos s ! r)) = lower (strip t) \<and>
               (\<forall>j < i. lower (nombre (objetos s ! (productos s ! j))) \<noteq> lower (strip t))))"
    by (intro exI [of _ ?res] conjI allI) (rule 1, rule 2, rule 3)
qed

theorem C3_buscar_producto_witness:
  "strip ''  '' = [] \<and> strip '' banana '' \<noteq> [] \<and> strip ''cherry'' \<noteq> [] \<and>
   buscar_producto ejemplo_frutas (PStr ''  '')
     = (Inl (ValueError BusquedaVacia), ejemplo_frutas) \<and>
   buscar_producto ejemplo_frutas (PStr '' banana '') = (Inr (Some 1), ejemplo_frutas) \<and>
   buscar_producto ejemplo_frutas (PStr ''cherry'') = (Inr None, ejemplo_frutas) \<and>
   buscar_producto Inventario (PStr ''cherry'') = (Inr None, Inventario)"
  using
    C3_buscar_producto [where s = ejemplo_frutas and t = "''  ''"]
    C3_buscar_producto [where s = ejemplo_frutas and t = "'' banana ''"]
    C3_buscar_producto [where s = ejemplo_frutas and t = "''cherry''"]
    C3_buscar_producto [where s = Inventario and t = "''cherry''"]
  by (simp add: buscar_producto_def strip_ejemplos lower_ejemplos ejemplo_frutas_def
      Inventario_def)

section \<open>Validation of price and quantity\<close>

text \<open>\<open>float(n)\<close> in closed form, and the checks of a price in terms of its argument.\<close>

lemma float_of_int_eq:
  "float_of_int n =
     (if limite_float \<le> \<bar>n\<bar> then Inl OverflowError else Inr (round64 (of_int n)))"
proof (cases "limite_float \<le> \<bar>n\<bar>")
  case True
  then have "float_of_int n = Inl OverflowError" by (simp only: float_of_int_overflow_iff)
  with True show ?thesis by simp
next
  case False
  then have "float_of_int n \<noteq> Inl OverflowError" by (simp add: float_of_int_overflow_iff)
  then have "float_of_int n = Inr (round64 (of_int n))"
    by (simp add: float_of_int_def Let_def split: if_splits)
  with False show ?thesis by simp
qed

lemma round64_int_sign:
  assumes "\<bar>n\<bar> < limite_float"
  shows "float_lt0 (round64 (of_int n)) = (n < 0)" and "float_ge0 (round64 (of_int n)) = (0 \<le> n)"
proof -
  have "float_of_int n = Inr (round64 (of_int n))"
    using assms by (simp add: float_of_int_eq)
  then show "float_lt0 (round64 (of_int n)) = (n < 0)"
    and "float_ge0 (round64 (of_int n)) = (0 \<le> n)"
    by (rule float_of_int_sign)+
qed

lemma float_ge0_not_lt0: "float_ge0 x \<Longrightarrow> \<not> float_lt0 x"
  by (cases x) auto

text \<open>The constructor with a string name and an integer quantity, the price converted.\<close>

lemma Producto_ok:
  assumes "strip t \<noteq> []" and "numero_de pre = Some n" and "py_float n = Inr f"
    and "\<not> float_lt0 f" and "0 \<le> valor c"
  shows "Producto s (PStr t) pre (PEntero c) =
           (Inr (length (objetos s)),
            s\<lparr>objetos := objetos s @ [\<lparr>nombre = strip t, precio = f, cantidad = c\<rparr>]\<rparr>)"
  using assms by (simp add: Producto_def init_producto_def)

lemma calcular_valor_total_nuevo:
  "calcular_valor_total (s\<lparr>objetos := objetos s @ [p]\<rparr>) (length (objetos s)) =
     (float_mul_int (precio p) (cantidad p), s\<lparr>objetos := objetos s @ [p]\<rparr>)"
  by (simp add: calcular_valor_total_def)

text \<open>
  C1, as the code has it. For a name whose trimmed text is not empty, a quantity that is
  a non-negative integer, and a price that is a float \<open>>= 0\<close> or a non-negative integer
  below \<open>limite_float\<close> (one that converts to a float), the constructor creates the
  instance with the trimmed name, the price converted to a float and the quantity.
  \<open>calcular_valor_total\<close> of that instance is the float product of the stored price and
  the converted quantity when the quantity is below \<open>limite_float\<close>; for a larger
  quantity it raises \<open>OverflowError\<close>.
\<close>

theorem C1_construccion_valor_total:
  assumes "strip t \<noteq> []" and "0 \<le> valor c"
    and "pre = PFloat x \<and> float_ge0 x \<or>
         pre = PEntero i \<and> 0 \<le> valor i \<and> valor i < limite_float"
  shows "\<exists>f s'.
           Producto s (PStr t) pre (PEntero c) = (Inr (length (objetos s)), s') \<and>
           s' = s\<lparr>objetos := objetos s @ [\<lparr>nombre = strip t, precio = f, cantidad = c\<rparr>]\<rparr> \<and>
           (pre = PFloat x \<longrightarrow> f = x) \<and>
           (pre = PEntero i \<longrightarrow> f = round64 (of_int (valor i))) \<and>
           calcular_valor_total s' (length (objetos s)) =
             (if valor c < limite_float
              then Inr (fmul f (round64 (of_int (valor c)))) else Inl OverflowError, s')"
proof -
  define f where "f = (case pre of PFloat y \<Rightarrow> y | _ \<Rightarrow> round64 (of_int (valor i)))"
  define s' where
    "s' = s\<lparr>objetos := objetos s @ [\<lparr>nombre = strip t, precio = f, cantidad = c\<rparr>]\<rparr>"
  from assms(3) have pre: "\<exists>n. numero_de pre = Some n \<and> py_float n = Inr f \<and> \<not> float_lt0 f"
  proof
    assume "pre = PFloat x \<and> float_ge0 x"
    then show ?thesis by (simp add: f_def float_ge0_not_lt0)
  next
    assume a: "pre = PEntero i \<and> 0 \<le> valor i \<and> valor i < limite_float"
    then have b: "\<bar>valor i\<bar> < limite_float" by linarith
    then have "float_of_int (valor i) = Inr (round64 (of_int (valor i)))"
      by (simp add: float_of_int_eq)
    moreover have "\<not> float_lt0 (round64 (of_int (valor i)))"
      using round64_int_sign(1) [OF b] a by simp
    ultimately show ?thesis using a by (simp add: f_def)
  qed
  then obtain n where n: "numero_de pre = Some n" "py_float n = Inr f" "\<not> float_lt0 f"
    by blast
  have 1: "Producto s (PStr t) pre (PEntero c) = (Inr (length (objetos s)), s')"
    unfolding s'_def using assms(1) n assms(2) by (rule Producto_ok)
  have "\<bar>valor c\<bar> = valor c" using assms(2) by simp
  then have 2: "float_of_int (valor c) =
      (if valor c < limite_float then Inr (round64 (of_int (valor c)))
       else Inl OverflowError)"
    by (simp add: float_of_int_eq)
  have 3: "calcular_valor_total s' (length (objetos s)) =
             (if valor c < limite_float
              then Inr (fmul f (round64 (of_int (valor c)))) else Inl OverflowError, s')"
    unfolding s'_def calcular_valor_total_nuevo float_mul_int_def by (simp add: 2)
  have 4: "pre = PFloat x \<longrightarrow> f = x" and 5: "pre = PEntero i \<longrightarrow> f = round64 (of_int (valor i))"
    by (simp_all add: f_def)
  show ?thesis
    by (intro exI [of _ f] exI [of _ s'] conjI) (rule 1, rule s'_def, rule 4, rule 5, rule 3)
qed
lemma round64_int_exact: "\<bar>n\<bar> < 2 ^ 53 \<Longrightarrow> round64 (of_int n) = Finite (of_int n)"
  using float_of_int_exact [of n] by (simp add: float_of_int_def Let_def split: if_splits)

lemma round64_ejemplos:
  "round64 3 = Finite 3" "round64 4 = Finite 4" "round64 5 = Finite 5" "round64 10 = Finite 10"
  using round64_int_exact [of 3] round64_int_exact [of 4] round64_int_exact [of 5]
    round64_int_exact [of 10]
  by simp_all

lemma fmul_ejemplos:
  "fmul (Finite (5 / 2)) (Finite 4) = Finite 10"
  by (simp add: fmul_def is_inf_def is_zero_def round64_ejemplos)

theorem C1_construccion_valor_total_witness:
  "strip ''a'' \<noteq> [] \<and> 0 \<le> valor (IntObj 4) \<and> float_ge0 (Finite (5 / 2)) \<and>
   Producto Inventario (PStr ''a'') (PFloat (Finite (5 / 2))) (PEntero (IntObj 4)) =
     (Inr 0, \<lparr>objetos = [\<lparr>nombre = ''a'', precio = Finite (5 / 2), cantidad = IntObj 4\<rparr>],
              productos = [], salida = []\<rparr>) \<and>
   calcular_valor_total
     \<lparr>objetos = [\<lparr>nombre = ''a'', precio = Finite (5 / 2), cantidad = IntObj 4\<rparr>],
      productos = [], salida = []\<rparr> 0 =
     (Inr (Finite 10),
      \<lparr>objetos = [\<lparr>nombre = ''a'', precio = Finite (5 / 2), cantidad = IntObj 4\<rparr>],
       productos = [], salida = []\<rparr>) \<and>
   0 \<le> valor (IntObj 5) \<and> valor (IntObj 5) < limite_float \<and>
   Producto Inventario (PStr ''a'') (PEntero (IntObj 5)) (PEntero (IntObj 3)) =
     (Inr 0, \<lparr>objetos = [\<lparr>nombre = ''a'', precio = Finite 5, cantidad = IntObj 3\<rparr>],
              productos = [], salida = []\<rparr>)"
  using C1_construccion_valor_total [where s = Inventario and t = "''a''" and c = "IntObj 4"
      and pre = "PFloat (Finite (5 / 2))" and x = "Finite (5 / 2)" and i = "IntObj 0"]
    C1_construccion_valor_total [where s = Inventario and t = "''a''" and c = "IntObj 3"
      and pre = "PEntero (IntObj 5)" and x = "Finite 0" and i = "IntObj 5"]
  by (auto simp add: strip_a Inventario_def round64_ejemplos fmul_ejemplos limite_float_def)

lemma round64_2_53:
  "round64 9007199254740993 = Finite 9007199254740992"
  "round64 9007199254740992 = Finite 9007199254740992"
  by code_simp+

text \<open>
  C1 as stated fails for an integer price that does not convert to a float: the name
  is valid and price and quantity are non-negative, but \<open>float(precio)\<close> raises
  \<open>OverflowError\<close>. And for the integer price \<open>2^53 + 1\<close> the stored price is the float
  \<open>2^53\<close>, so that \<open>calcular_valor_total\<close> with quantity 1 differs from price times
  quantity.
\<close>

theorem C1_counterexample:
  "strip ''a'' \<noteq> [] \<and> 0 \<le> valor (IntObj (2 ^ 1024)) \<and> 0 \<le> valor (IntObj 1) \<and>
   Producto Inventario (PStr ''a'') (PEntero (IntObj (2 ^ 1024))) (PEntero (IntObj 1)) =
     (Inl OverflowError, Inventario) \<and>
   0 \<le> valor (IntObj 9007199254740993) \<and>
   Producto Inventario (PStr ''a'') (PEntero (IntObj 9007199254740993)) (PEntero (IntObj 1)) =
     (Inr 0,
      \<lparr>objetos = [\<lparr>nombre = ''a'', precio = Finite 9007199254740992, cantidad = IntObj 1\<rparr>],
       productos = [], salida = []\<rparr>) \<and>
   fst (calcular_valor_total
     \<lparr>objetos = [\<lparr>nombre = ''a'', precio = Finite 9007199254740992, cantidad = IntObj 1\<rparr>],
      productos = [], salida = []\<rparr> 0) = Inr (Finite 9007199254740992) \<and>
   Finite 9007199254740992 \<noteq> Finite (of_int (9007199254740993 * valor (IntObj 1)))"
proof -
  have 1: "float_of_int (2 ^ 1024) = Inl OverflowError"
    by (simp add: float_of_int_overflow_iff limite_float_def)
  have 2: "float_of_int 9007199254740993 = Inr (Finite 9007199254740992)"
    by (simp add: float_of_int_eq limite_float_def round64_2_53)
  have 3: "float_of_int 1 = Inr (Finite 1)"
    using float_of_int_exact [of 1] by simp
  from 1 2 3 show ?thesis
    by (simp add: Producto_def init_producto_def strip_a Inventario_def
        calcular_valor_total_def float_mul_int_def fmul_def is_inf_def is_zero_def
        round64_2_53)
qed










section \<open>Invariants of the reachable states\<close>

















section \<open>Total value and listing\<close>














end
